theory Spec2Isabelle
  imports Main "HOL-Library.Word"
begin

section \<open>JavaScript values\<close>

text \<open>
  A JavaScript string is a sequence of 16-bit code units. It may hold a surrogate that
  has no partner; \<open>encodeURIComponent\<close> depends on that, so the code units are kept.
  \<open>js\<close> embeds an ASCII literal.
\<close>

type_synonym js_string = "16 word list"

definition js :: "string \<Rightarrow> js_string" where
  "js s = map (\<lambda>c. of_nat (of_char c)) s"

text \<open>
  The values a field of a service response can hold, as far as \<open>typeof\<close> and
  \<open>== null\<close> tell them apart.
\<close>

datatype js_value = JUndefined | JNull | JBoolean bool | JString js_string

text \<open>
  What the code throws. \<open>Error\<close> and \<open>TypeError\<close> carry the message given to the
  constructor. \<open>CannotReadProperty p\<close> is the TypeError the engine itself raises when
  property \<open>p\<close> is read from \<open>undefined\<close>; its message text differs between engines,
  so only the property name is kept. \<open>URIError\<close> is raised by \<open>encodeURIComponent\<close>.
  \<open>ServiceException\<close> stands for whatever a rejected service call carries.
\<close>

datatype error =
    Error js_string
  | TypeError js_string
  | CannotReadProperty js_string
  | URIError
  | ServiceException js_string

text \<open>
  Array indexing: \<open>xs[i]\<close> is \<open>undefined\<close> (here \<open>None\<close>) outside \<open>0 .. length - 1\<close>.
\<close>

definition index :: "'a list \<Rightarrow> int \<Rightarrow> 'a option" where
  "index xs i = (if 0 \<le> i \<and> i < int (length xs) then Some (xs ! nat i) else None)"

text \<open>The operator \<open>a ?? b\<close> on a value that may be null or undefined.\<close>

definition nullish :: "'a option \<Rightarrow> 'a \<Rightarrow> 'a" where
  "nullish a b = (case a of None \<Rightarrow> b | Some v \<Rightarrow> v)"

text \<open>
  Property lookup \<open>obj[k]\<close> on an object literal. A key that is not an own property is
  looked up in \<open>Object.prototype\<close>, whose members (the properties of the Object
  prototype object in ECMAScript, with its legacy accessors) are functions, and for
  \<open>__proto__\<close> the prototype object itself: none of them is null or undefined.
\<close>

definition Object_prototype :: "js_string list" where
  "Object_prototype = map js
     [''constructor'', ''hasOwnProperty'', ''isPrototypeOf'', ''propertyIsEnumerable'',
      ''toLocaleString'', ''toString'', ''valueOf'', ''__proto__'',
      ''__defineGetter__'', ''__defineSetter__'', ''__lookupGetter__'', ''__lookupSetter__'']"

datatype 'a property = Own 'a | Inherited js_string | Missing

definition get_property :: "(js_string \<times> 'a) list \<Rightarrow> js_string \<Rightarrow> 'a property" where
  "get_property obj k =
     (case map_of obj k of
        Some v \<Rightarrow> Own v
      | None \<Rightarrow> if k \<in> set Object_prototype then Inherited k else Missing)"

section \<open>Time\<close>

text \<open>
  A \<open>Date\<close> is its time value, milliseconds since the epoch; a Date object that holds
  no time value is not a timestamp and has no counterpart here. A \<open>Temporal.Instant\<close>
  is its nanoseconds since the epoch, and the \<open>Temporal.Duration\<close> that \<open>a.until(b)\<close>
  returns is kept as its total length in nanoseconds.
\<close>

type_synonym date = int
type_synonym instant = int
type_synonym duration = int

definition toTemporalInstant :: "date \<Rightarrow> instant" where
  "toTemporalInstant d = d * 1000000"

definition until :: "instant \<Rightarrow> instant \<Rightarrow> duration" where
  "until a b = b - a"

section \<open>The build service and the image registry\<close>

record LogsLocation =
  deepLink :: "js_string option"

text \<open>
  A build record of the service. \<open>id\<close>, \<open>arn\<close> and \<open>buildStatus\<close> are tested with
  \<open>typeof\<close> by the code, so they are arbitrary values here.
\<close>

record Build =
  build_id :: js_value
  build_arn :: js_value
  build_buildStatus :: js_value
  startTime :: "date option"
  endTime :: "date option"
  logs :: "LogsLocation option"

record ImageDetail =
  imageDigest :: js_string

record BatchGetBuildsInput =
  ids :: "js_string list"

record BatchGetBuildsOutput =
  builds :: "Build list option"

record StartBuildInput =
  projectName :: js_string
  environmentVariablesOverride :: "(js_string \<times> js_string) list"

record StartBuildOutput =
  build :: "Build option"

text \<open>
  The world outside the command: what each awaited call settles to. \<open>Inl\<close> is a
  rejected promise. \<open>getImageDetailByTag\<close> takes the image region, the repository name
  and the tag, and resolves to nothing when no image carries the tag.
\<close>

record world =
  getImageDetailByTag :: "js_string \<Rightarrow> js_string \<Rightarrow> js_string \<Rightarrow> error + ImageDetail option"
  startBuild :: "StartBuildInput \<Rightarrow> error + StartBuildOutput"
  batchGetBuilds :: "BatchGetBuildsInput \<Rightarrow> error + BatchGetBuildsOutput"

text \<open>The calls a command makes, in order.\<close>

datatype call =
    GetImageDetailByTag js_string js_string js_string
  | StartBuild StartBuildInput
  | BatchGetBuilds BatchGetBuildsInput

section \<open>Entry, Values and the reply of a command\<close>

text \<open>
  The schemas of the three build outputs are declared outside these files; they are
  given the fields that \<open>constructComment\<close> reads. \<open>runTaskBuildOutput\<close> is put into
  a template literal as it is, so it is kept as that string.
\<close>

record GeneralBuildOutput =
  sourceZipKey :: js_string

record TfBuildOutput =
  apiURL :: js_string
  webURL :: js_string
  ecsClusterName :: js_string
  envRegion :: js_string
  apiTaskLogGroupName :: js_string

record Entry =
  prNumber :: int
  buildId :: js_string
  buildArn :: js_string
  webImageDigest :: js_string
  apiImageDigest :: js_string
  generalBuildOutput :: "GeneralBuildOutput option"
  tfBuildOutput :: "TfBuildOutput option"
  runTaskBuildOutput :: "js_string option"

record BuiltInfo =
  timeRange :: js_string

record CommentValues =
  buildStatus :: js_string
  statusChangedAt :: instant
  deepLogLink :: "js_string option"
  builtInfo :: "BuiltInfo option"

datatype status = Success | Failure | Undone

text \<open>
  The value of the \<open>status\<close> field of a reply: one of the three status strings, or a
  member of \<open>Object.prototype\<close> that the lookup in the status table returned.
\<close>

datatype status_value = Status status | PrototypeMember js_string

record Reply =
  status :: status_value
  entry :: Entry
  values' :: CommentValues

section \<open>The command's surroundings\<close>

text \<open>
  The fields of \<open>ctx.env\<close> that the command reads, and of \<open>ctx\<close>: the number of the
  pull request (\<open>ctx.commentPayload.issue.number\<close>), the namespace and the environment.
  Credentials and logger are left out.
\<close>

record Env =
  API_REPO_NAME :: js_string
  WEB_REPO_NAME :: js_string
  OPERATE_ENV_PROJECT_NAME :: js_string

record Context =
  issue_number :: int
  namespace :: js_string
  env :: Env

record GeneralEntry =
  uuid :: js_string

text \<open>The operations of \<open>scriptOpEnvSchema\<close>, and the string each one is.\<close>

datatype Operation =
    Deploy | Recreate | Destroy | StatusOp | DbRecreate | DbTakeSnapshot | DbRecreateFrom

fun operation_string :: "Operation \<Rightarrow> js_string" where
  "operation_string Deploy = js ''deploy''"
| "operation_string Recreate = js ''recreate''"
| "operation_string Destroy = js ''destroy''"
| "operation_string StatusOp = js ''status''"
| "operation_string DbRecreate = js ''db/recreate''"
| "operation_string DbTakeSnapshot = js ''db/take-snapshot''"
| "operation_string DbRecreateFrom = js ''db/recreate-from''"

record CreateParams =
  operation :: Operation

text \<open>
  An object of environment variables is the list of its keys and values, in the order they
  were written. \<open>toCodeBuildEnv\<close> and \<open>dynamicRunScriptCodeBuildEnv\<close> are declared
  outside these files; they turn such an object into the variables of a build, and are
  parameters of \<open>main\<close>. \<open>scriptOpCodeBuildEnv\<close> and \<open>dynamicOpCodeBuildEnv\<close> are
  \<open>toCodeBuildEnv\<close>, as op-env.ts defines them.
\<close>

type_synonym env_object = "(js_string \<times> js_string) list"
type_synonym CodeBuildEnv = "(js_string \<times> js_string) list"

definition scriptOpCodeBuildEnv :: "(env_object \<Rightarrow> CodeBuildEnv) \<Rightarrow> env_object \<Rightarrow> CodeBuildEnv" where
  "scriptOpCodeBuildEnv toCodeBuildEnv env_vars = toCodeBuildEnv env_vars"

definition dynamicOpCodeBuildEnv :: "(env_object \<Rightarrow> CodeBuildEnv) \<Rightarrow> env_object \<Rightarrow> CodeBuildEnv" where
  "dynamicOpCodeBuildEnv toCodeBuildEnv env_vars = toCodeBuildEnv env_vars"

definition imageRegion :: js_string where
  "imageRegion = js ''ap-northeast-1''"

section \<open>main\<close>

text \<open>The argument of \<open>codeBuild.startBuild\<close>, from the two image details.\<close>

definition startBuild_input ::
  "(Env \<Rightarrow> CreateParams) \<Rightarrow> (env_object \<Rightarrow> CodeBuildEnv) \<Rightarrow> (env_object \<Rightarrow> CodeBuildEnv) \<Rightarrow>
   Context \<Rightarrow> GeneralEntry \<Rightarrow> ImageDetail \<Rightarrow> ImageDetail \<Rightarrow> StartBuildInput" where
  "startBuild_input paramsGetter toCodeBuildEnv dynamicRunScriptCodeBuildEnv ctx generalEntry
       apiImageDetail webImageDetail =
     \<lparr>projectName = OPERATE_ENV_PROJECT_NAME (env ctx),
      environmentVariablesOverride =
        dynamicRunScriptCodeBuildEnv [(js ''ENTRY_UUID'', uuid generalEntry)]
        @ scriptOpCodeBuildEnv toCodeBuildEnv
            [(js ''OPERATION'', operation_string (operation (paramsGetter (env ctx))))]
        @ dynamicOpCodeBuildEnv toCodeBuildEnv
            [(js ''TERRAFORM_VERSION'', js ''1.0.9''),
             (js ''NAMESPACE'', namespace ctx),
             (js ''API_REPO_SHA'', imageDigest apiImageDetail),
             (js ''WEB_REPO_SHA'', imageDigest webImageDetail)]\<rparr>"

text \<open>
  \<open>main\<close> of the command that \<open>createCmd\<close> builds, with the calls it has made when
  it returns or throws. The command arguments are not read and are left out.
\<close>

definition main ::
  "(Env \<Rightarrow> CreateParams) \<Rightarrow> (env_object \<Rightarrow> CodeBuildEnv) \<Rightarrow> (env_object \<Rightarrow> CodeBuildEnv) \<Rightarrow>
   Context \<Rightarrow> GeneralEntry \<Rightarrow> world \<Rightarrow> (error + Reply) \<times> call list" where
  "main paramsGetter toCodeBuildEnv dynamicRunScriptCodeBuildEnv ctx generalEntry w =
     (let apiCall = GetImageDetailByTag imageRegion (API_REPO_NAME (env ctx)) (namespace ctx);
          webCall = GetImageDetailByTag imageRegion (WEB_REPO_NAME (env ctx)) (namespace ctx)
      in
      case getImageDetailByTag w imageRegion (API_REPO_NAME (env ctx)) (namespace ctx) of
        Inl rejected \<Rightarrow> (Inl rejected, [apiCall])
      | Inr None \<Rightarrow> (Inl (Error (js ''Image for API not found.'')), [apiCall])
      | Inr (Some apiImageDetail) \<Rightarrow>
         (case getImageDetailByTag w imageRegion (WEB_REPO_NAME (env ctx)) (namespace ctx) of
            Inl rejected \<Rightarrow> (Inl rejected, [apiCall, webCall])
          | Inr None \<Rightarrow> (Inl (Error (js ''Image for WEB not found.'')), [apiCall, webCall])
          | Inr (Some webImageDetail) \<Rightarrow>
             let input = startBuild_input paramsGetter toCodeBuildEnv dynamicRunScriptCodeBuildEnv
                           ctx generalEntry apiImageDetail webImageDetail
             in
             ((case startBuild w input of
                 Inl rejected \<Rightarrow> Inl rejected
               | Inr r \<Rightarrow>
                  (case build r of
                     None \<Rightarrow> Inl (TypeError (js ''Response not found for CodeBuild.startBuild''))
                   | Some b \<Rightarrow>
                      (case build_buildStatus b of
                         JString status_string \<Rightarrow>
                          (case build_id b of
                             JString id_string \<Rightarrow>
                              (case build_arn b of
                                 JString arn_string \<Rightarrow>
                                  (case startTime b of
                                     None \<Rightarrow> Inl (TypeError (js ''CodeBuild response startTime is not Date''))
                                   | Some started \<Rightarrow>
                                      Inr \<lparr>status = Status Undone,
                                           entry =
                                             \<lparr>prNumber = issue_number ctx,
                                              buildId = id_string,
                                              buildArn = arn_string,
                                              webImageDigest = imageDigest webImageDetail,
                                              apiImageDigest = imageDigest apiImageDetail,
                                              generalBuildOutput = None,
                                              tfBuildOutput = None,
                                              runTaskBuildOutput = None\<rparr>,
                                           values' =
                                             \<lparr>buildStatus = status_string,
                                              statusChangedAt = toTemporalInstant started,
                                              deepLogLink = None,
                                              builtInfo = None\<rparr>\<rparr>)
                               | _ \<Rightarrow> Inl (TypeError (js ''CodeBuild response arn is not string'')))
                           | _ \<Rightarrow> Inl (TypeError (js ''CodeBuild response id is not string'')))
                       | _ \<Rightarrow> Inl (TypeError (js ''CodeBuild response buildStatus is not string''))))),
              [apiCall, webCall, StartBuild input])))"

section \<open>constructComment\<close>

text \<open>
  \<open>encodeURIComponent\<close> (ECMAScript, URI handling functions): a code unit of the unreserved set stays;
  any other code point is written as the octets of its UTF-8 form, each as \<open>%\<close> and two
  hexadecimal digits; a surrogate without its partner is a URIError.
\<close>

definition uriUnreserved :: "16 word \<Rightarrow> bool" where
  "uriUnreserved c \<longleftrightarrow>
     (0x41 \<le> unat c \<and> unat c \<le> 0x5A) \<or> (0x61 \<le> unat c \<and> unat c \<le> 0x7A)
     \<or> (0x30 \<le> unat c \<and> unat c \<le> 0x39)
     \<or> unat c \<in> {0x2D, 0x5F, 0x2E, 0x21, 0x7E, 0x2A, 0x27, 0x28, 0x29}"

definition leading_surrogate :: "16 word \<Rightarrow> bool" where
  "leading_surrogate c \<longleftrightarrow> 0xD800 \<le> unat c \<and> unat c \<le> 0xDBFF"

definition trailing_surrogate :: "16 word \<Rightarrow> bool" where
  "trailing_surrogate c \<longleftrightarrow> 0xDC00 \<le> unat c \<and> unat c \<le> 0xDFFF"

definition pair_code_point :: "16 word \<Rightarrow> 16 word \<Rightarrow> nat" where
  "pair_code_point lead trail = (unat lead - 0xD800) * 0x400 + (unat trail - 0xDC00) + 0x10000"

definition utf8 :: "nat \<Rightarrow> nat list" where
  "utf8 cp =
     (if cp < 0x80 then [cp]
      else if cp < 0x800 then [0xC0 + cp div 0x40, 0x80 + cp mod 0x40]
      else if cp < 0x10000 then
        [0xE0 + cp div 0x1000, 0x80 + cp div 0x40 mod 0x40, 0x80 + cp mod 0x40]
      else
        [0xF0 + cp div 0x40000, 0x80 + cp div 0x1000 mod 0x40, 0x80 + cp div 0x40 mod 0x40,
         0x80 + cp mod 0x40])"

definition hex_digit :: "nat \<Rightarrow> 16 word" where
  "hex_digit n = (if n < 10 then of_nat (0x30 + n) else of_nat (0x41 + (n - 10)))"

definition percent_encoded :: "nat list \<Rightarrow> js_string" where
  "percent_encoded octets =
     concat (map (\<lambda>octet. [0x25, hex_digit (octet div 16), hex_digit (octet mod 16)]) octets)"

fun encodeURIComponent :: "js_string \<Rightarrow> error + js_string" where
  "encodeURIComponent [] = Inr []"
| "encodeURIComponent (c # cs) =
     (if uriUnreserved c then map_sum id ((#) c) (encodeURIComponent cs)
      else if leading_surrogate c then
        (case cs of
           [] \<Rightarrow> Inl URIError
         | d # ds \<Rightarrow>
            if trailing_surrogate d
            then map_sum id ((@) (percent_encoded (utf8 (pair_code_point c d))))
                   (encodeURIComponent ds)
            else Inl URIError)
      else if trailing_surrogate c then Inl URIError
      else map_sum id ((@) (percent_encoded (utf8 (unat c)))) (encodeURIComponent cs))"

text \<open>
  \<open>String.prototype.isWellFormed\<close>: no surrogate stands without its partner.
\<close>

fun isWellFormed :: "js_string \<Rightarrow> bool" where
  "isWellFormed [] = True"
| "isWellFormed (c # cs) =
     (if leading_surrogate c then
        (case cs of [] \<Rightarrow> False | d # ds \<Rightarrow> trailing_surrogate d \<and> isWellFormed ds)
      else \<not> trailing_surrogate c \<and> isWellFormed cs)"

text \<open>
  A comment: its lines, and its hints, each a title with a comment of its own. A line is
  a string, or \<open>None\<close> where the code leaves null or undefined in the list.
\<close>

datatype CommentBody = CommentBody (main': "js_string option list") (hints: "CommentHint list")
  and CommentHint = CommentHint (title: js_string) (body: CommentBody)

text \<open>The Japanese words of the comment, as their UTF-16 code units.\<close>

definition ja_build :: js_string where
  "ja_build = [0x30D3, 0x30EB, 0x30C9]"

definition ja_build_status :: js_string where
  "ja_build_status = ja_build @ [0x30B9, 0x30C6, 0x30FC, 0x30BF, 0x30B9]"

definition ja_build_time :: js_string where
  "ja_build_time = ja_build @ [0x6642, 0x9593]"

definition ja_details :: js_string where
  "ja_details = [0x8A73, 0x7D30]"

definition ja_used :: js_string where
  "ja_used = [0x4F7F, 0x7528, 0x3057, 0x305F]"

definition ja_image_digest :: js_string where
  "ja_image_digest = [0x30A4, 0x30E1, 0x30FC, 0x30B8, 0x30C0, 0x30A4, 0x30B8, 0x30A7, 0x30B9, 0x30C8]"

definition ja_infra_version :: js_string where
  "ja_infra_version = [0x30A4, 0x30F3, 0x30D5, 0x30E9, 0x5B9A, 0x7FA9, 0x30D0, 0x30FC, 0x30B8, 0x30E7, 0x30F3]"

definition ja_detailed_log :: js_string where
  "ja_detailed_log = ja_details @ [0x30ED, 0x30B0]"

definition ja_of :: js_string where
  "ja_of = [0x306E]"

text \<open>\<open>a && b\<close> where \<open>a\<close> is an object, null or undefined, and \<open>b\<close> reads \<open>a\<close>.\<close>

definition and_then :: "'a option \<Rightarrow> ('a \<Rightarrow> js_string) \<Rightarrow> js_string option" where
  "and_then a line = (case a of None \<Rightarrow> None | Some v \<Rightarrow> Some (line v))"

text \<open>
  \<open>constructComment\<close> of the command. \<open>renderTimestamp\<close> and \<open>renderECRImageDigest\<close>
  are imported from files outside these sources and are parameters; the latter takes the
  image region, the digest and the repository name. The empty string is falsy: a deep
  link that is empty stays in the list as it is, and a \<open>runTaskBuildOutput\<close> that is
  empty counts as absent.
\<close>

definition constructComment ::
  "(instant \<Rightarrow> js_string) \<Rightarrow> (js_string \<Rightarrow> js_string \<Rightarrow> js_string \<Rightarrow> js_string) \<Rightarrow>
   Entry \<Rightarrow> CommentValues \<Rightarrow> Context \<Rightarrow> error + CommentBody" where
  "constructComment renderTimestamp renderECRImageDigest e vs ctx =
     (let region = js ''ap-northeast-1'' in
      case encodeURIComponent (buildId e) of
        Inl thrown \<Rightarrow> Inl thrown
      | Inr encoded \<Rightarrow>
         let buildUrl =
               js ''https://'' @ region
               @ js ''.console.aws.amazon.com/codesuite/codebuild/projects/''
               @ OPERATE_ENV_PROJECT_NAME (env ctx)
               @ js ''/build/'' @ encoded @ js ''/?region='' @ region
         in
         Inr (CommentBody
           ([Some (js ''- '' @ ja_build_status @ js '': '' @ buildStatus vs @ js '' (''
                   @ renderTimestamp (statusChangedAt vs) @ js '')''),
             and_then (builtInfo vs)
               (\<lambda>info. js ''- '' @ ja_build_time @ js '': '' @ timeRange info)]
            @ (case tfBuildOutput e of
                 Some tf \<Rightarrow> [Some (js ''- api: '' @ apiURL tf), Some (js ''- web: '' @ webURL tf)]
               | None \<Rightarrow> []))
           [CommentHint ja_details
              (CommentBody
                 ([Some (js ''- '' @ ja_build @ js ''ID: ['' @ buildId e @ js '']('' @ buildUrl
                         @ js '')'')]
                  @ (case tfBuildOutput e of
                       Some tf \<Rightarrow>
                        [Some (js ''- ECS Cluster Name: ['' @ [0x60] @ ecsClusterName tf @ [0x60]
                               @ js ''](https://'' @ envRegion tf
                               @ js ''.console.aws.amazon.com/ecs/home#/clusters/''
                               @ ecsClusterName tf @ js ''/services)'')]
                     | None \<Rightarrow> [])
                  @ [Some (js ''- '' @ ja_used @ js '' Web '' @ ja_image_digest @ js '': ''
                           @ renderECRImageDigest imageRegion (webImageDigest e)
                               (WEB_REPO_NAME (env ctx))),
                     Some (js ''- '' @ ja_used @ js '' API '' @ ja_image_digest @ js '': ''
                           @ renderECRImageDigest imageRegion (apiImageDigest e)
                               (API_REPO_NAME (env ctx))),
                     and_then (generalBuildOutput e)
                       (\<lambda>general. js ''- '' @ ja_used @ ja_infra_version @ js '': ''
                                   @ sourceZipKey general)]
                  @ (case (tfBuildOutput e, runTaskBuildOutput e) of
                       (Some tf, Some task) \<Rightarrow>
                        if task = [] then []
                        else
                          [Some (js ''[RunTask '' @ ja_of @ ja_detailed_log
                                 @ js '' (CloudWatch Logs)](https://'' @ envRegion tf
                                 @ js ''.console.aws.amazon.com/cloudwatch/home#logsV2:log-groups/log-group/''
                                 @ apiTaskLogGroupName tf
                                 @ js ''/log-events/api'' @ js ''$252F'' @ js ''api'' @ js ''$252F''
                                 @ task @ js '')'')]
                     | _ \<Rightarrow> [])
                  @ [case deepLogLink vs of
                       None \<Rightarrow> None
                     | Some link \<Rightarrow>
                        if link = [] then Some []
                        else Some (js ''- ['' @ ja_build @ ja_of @ ja_detailed_log
                                   @ js '' (CloudWatch Logs)]('' @ link @ js '')'')])
                 [])]))"

section \<open>update\<close>

text \<open>
  \<open>update\<close> of the command that \<open>createCmd\<close> builds. \<open>renderDuration\<close> is imported
  from a file outside these sources and is a parameter. The logger calls are left out.
\<close>

definition update :: "(duration \<Rightarrow> js_string) \<Rightarrow> Entry \<Rightarrow> world \<Rightarrow> (error + Reply) \<times> call list" where
  "update renderDuration e w =
     (let request = \<lparr>ids = [buildId e]\<rparr> in
      (case batchGetBuilds w request of
         Inl rejected \<Rightarrow> Inl rejected
       | Inr r \<Rightarrow>
          (case builds r of
             None \<Rightarrow> Inl (TypeError (js ''builds not found''))
           | Some bs \<Rightarrow>
              let first = index bs 0;
                  last = index bs (int (length bs) - 1)
              in
              (case last of
                 None \<Rightarrow> Inl (CannotReadProperty (js ''buildStatus''))
               | Some l \<Rightarrow>
                  (case build_buildStatus l of
                     JString lastStatus \<Rightarrow>
                      (case first of
                         None \<Rightarrow> Inl (CannotReadProperty (js ''startTime''))
                       | Some f \<Rightarrow>
                          (case startTime f of
                             None \<Rightarrow> Inl (TypeError (js ''CodeBuild first startTime is not found''))
                           | Some firstStartTime \<Rightarrow>
                              (case startTime l of
                                 None \<Rightarrow> Inl (TypeError (js ''CodeBuild last startTime is not found''))
                               | Some lastStartTime \<Rightarrow>
                                  let lastEndTime = endTime l;
                                      computeBuiltInfo =
                                        \<lparr>timeRange = renderDuration
                                           (until (toTemporalInstant firstStartTime)
                                              (toTemporalInstant (nullish lastEndTime lastStartTime)))\<rparr>;
                                      info = (if lastStatus = js ''SUCCEEDED''
                                              then Some computeBuiltInfo else None);
                                      vs = \<lparr>buildStatus = lastStatus,
                                            statusChangedAt =
                                              toTemporalInstant (nullish lastEndTime lastStartTime),
                                            deepLogLink = Option.bind (logs l) deepLink,
                                            builtInfo = info\<rparr>
                                  in Inr \<lparr>status =
                                            (case get_property
                                                    [(js ''SUCCEEDED'', Success), (js ''FAILED'', Failure)]
                                                    lastStatus of
                                               Own s \<Rightarrow> Status s
                                             | Inherited k \<Rightarrow> PrototypeMember k
                                             | Missing \<Rightarrow> Status Undone),
                                          entry = e,
                                          values' = vs\<rparr>)))
                   | _ \<Rightarrow> Inl (TypeError (js ''CodeBuild last buildStatus is not string''))))),
       [BatchGetBuilds request]))"

section \<open>The rendered duration\<close>

text \<open>
  Modelled from the spec: \<open>renderDuration\<close>, which \<open>update\<close> imports from the
  comment rendering utilities of the bot, a file that is not among these sources. The spec
  calls its result "a human-readable elapsed-time summary derived from job start/end
  timestamps" and "a non-empty duration string". The model prints the whole seconds of
  the duration in decimal, with a sign when the end precedes the start, followed by \<open>s\<close>.
\<close>

fun decimal :: "nat \<Rightarrow> js_string" where
  "decimal n =
     (if n < 10 then [of_nat (48 + n)] else decimal (n div 10) @ [of_nat (48 + n mod 10)])"

declare decimal.simps [simp del]

definition renderDuration :: "duration \<Rightarrow> js_string" where
  "renderDuration d =
     (if d < 0 then js ''-'' else []) @ decimal (nat (\<bar>d\<bar> div 1000000000)) @ js ''s''"

text \<open>The errors that \<open>update\<close> itself constructs and throws.\<close>

definition update_errors :: "error list" where
  "update_errors =
     [TypeError (js ''builds not found''),
      TypeError (js ''CodeBuild last buildStatus is not string''),
      TypeError (js ''CodeBuild first startTime is not found''),
      TypeError (js ''CodeBuild last startTime is not found'')]"

section \<open>Sample data\<close>

text \<open>
  An entry, a build record with a given status, start and end, and a world whose build
  query settles to a given answer (no image carries a tag there, and no build starts).
\<close>

definition sample_entry :: Entry where
  "sample_entry =
     \<lparr>prNumber = 7, buildId = js ''operate-env:0001'', buildArn = js ''arn:aws:codebuild:0001'',
      webImageDigest = js ''sha256:aa'', apiImageDigest = js ''sha256:bb'',
      generalBuildOutput = None, tfBuildOutput = None, runTaskBuildOutput = None\<rparr>"

definition sample_build :: "js_value \<Rightarrow> date option \<Rightarrow> date option \<Rightarrow> Build" where
  "sample_build s t0 t1 =
     \<lparr>build_id = JString (js ''operate-env:0001''),
      build_arn = JString (js ''arn:aws:codebuild:0001''),
      build_buildStatus = s, startTime = t0, endTime = t1,
      logs = Some \<lparr>deepLink = Some (js ''https://logs.example/1'')\<rparr>\<rparr>"

definition query_settles :: "error + BatchGetBuildsOutput \<Rightarrow> world" where
  "query_settles answer =
     \<lparr>getImageDetailByTag = (\<lambda>region repo tag. Inr None),
      startBuild = (\<lambda>input. Inl (ServiceException (js ''no build''))),
      batchGetBuilds = (\<lambda>input. answer)\<rparr>"

text \<open>
  A context, a general entry, stand-ins for the imported helpers, and a world whose
  registry holds the given image details for the API and the WEB repository and whose
  build service answers a start as given.
\<close>

definition sample_context :: Context where
  "sample_context =
     \<lparr>issue_number = 7, namespace = js ''pr7'',
      env = \<lparr>API_REPO_NAME = js ''api'', WEB_REPO_NAME = js ''web'',
             OPERATE_ENV_PROJECT_NAME = js ''operate-env''\<rparr>\<rparr>"

definition sample_general_entry :: GeneralEntry where
  "sample_general_entry = \<lparr>uuid = js ''0b5e''\<rparr>"

definition sample_paramsGetter :: "Env \<Rightarrow> CreateParams" where
  "sample_paramsGetter environment = \<lparr>operation = Deploy\<rparr>"

definition sample_toCodeBuildEnv :: "env_object \<Rightarrow> CodeBuildEnv" where
  "sample_toCodeBuildEnv object = object"

definition sample_renderTimestamp :: "instant \<Rightarrow> js_string" where
  "sample_renderTimestamp t = decimal (nat \<bar>t\<bar>)"

definition sample_renderECRImageDigest :: "js_string \<Rightarrow> js_string \<Rightarrow> js_string \<Rightarrow> js_string" where
  "sample_renderECRImageDigest region digest repo = repo @ js ''@'' @ digest"

definition registry_holds ::
  "ImageDetail option \<Rightarrow> ImageDetail option \<Rightarrow> error + StartBuildOutput \<Rightarrow> world" where
  "registry_holds api web started =
     \<lparr>getImageDetailByTag = (\<lambda>region repo tag. if repo = js ''api'' then Inr api else Inr web),
      startBuild = (\<lambda>input. started),
      batchGetBuilds = (\<lambda>input. Inl (ServiceException (js ''no query'')))\<rparr>"

definition sample_values :: CommentValues where
  "sample_values =
     \<lparr>buildStatus = js ''IN_PROGRESS'', statusChangedAt = 1000000000,
      deepLogLink = None, builtInfo = None\<rparr>"

section \<open>Facts about the helpers\<close>

lemma index_first: "bs \<noteq> [] \<Longrightarrow> index bs 0 = Some (hd bs)"
  by (cases bs) (simp_all add: index_def)

lemma index_last: "bs \<noteq> [] \<Longrightarrow> index bs (int (length bs) - 1) = Some (last bs)"
  by (simp add: index_def last_conv_nth nat_diff_distrib')

lemma index_Nil: "index [] i = None"
  by (simp add: index_def)

lemma status_names_distinct:
  "js ''SUCCEEDED'' \<noteq> js ''FAILED''"
  "js ''SUCCEEDED'' \<notin> set Object_prototype"
  "js ''FAILED'' \<notin> set Object_prototype"
  by (simp_all add: js_def Object_prototype_def)

lemma status_table_SUCCEEDED:
  "get_property [(js ''SUCCEEDED'', Success), (js ''FAILED'', Failure)] (js ''SUCCEEDED'') = Own Success"
  by (simp add: get_property_def)

lemma status_table_FAILED:
  "get_property [(js ''SUCCEEDED'', Success), (js ''FAILED'', Failure)] (js ''FAILED'') = Own Failure"
  using status_names_distinct(1) by (simp add: get_property_def)

lemma status_table_other:
  assumes "s \<noteq> js ''SUCCEEDED''" and "s \<noteq> js ''FAILED''"
  shows "get_property [(js ''SUCCEEDED'', Success), (js ''FAILED'', Failure)] s =
         (if s \<in> set Object_prototype then Inherited s else Missing)"
  using assms by (simp add: get_property_def)

lemma decimal_nonempty: "decimal n \<noteq> []"
  by (subst decimal.simps) simp

lemma renderDuration_nonempty: "renderDuration d \<noteq> []"
  by (simp add: renderDuration_def decimal_nonempty)

section \<open>Facts about update\<close>

text \<open>
  What \<open>update\<close> replies once the query has settled to a list that is not empty, the
  status of its last record is a string, and its first and last records have a start time.
\<close>

lemma update_passes:
  assumes "batchGetBuilds w \<lparr>ids = [buildId e]\<rparr> = Inr r"
    and "builds r = Some bs" and "bs \<noteq> []"
    and "build_buildStatus (last bs) = JString s"
    and "startTime (hd bs) = Some t0" and "startTime (last bs) = Some t1"
  shows "fst (update rd e w) =
     Inr \<lparr>status =
            (case get_property [(js ''SUCCEEDED'', Success), (js ''FAILED'', Failure)] s of
               Own v \<Rightarrow> Status v
             | Inherited k \<Rightarrow> PrototypeMember k
             | Missing \<Rightarrow> Status Undone),
          entry = e,
          values' =
            \<lparr>buildStatus = s,
             statusChangedAt = toTemporalInstant (nullish (endTime (last bs)) t1),
             deepLogLink = Option.bind (logs (last bs)) deepLink,
             builtInfo =
               (if s = js ''SUCCEEDED''
                then Some \<lparr>timeRange = rd (until (toTemporalInstant t0)
                                (toTemporalInstant (nullish (endTime (last bs)) t1)))\<rparr>
                else None)\<rparr>\<rparr>"
  using assms by (simp add: update_def Let_def index_first index_last)

text \<open>
  The same, for a status string that names a member of \<open>Object.prototype\<close>: the reply
  carries that member where its status should be.
\<close>

lemma update_inherited_status:
  assumes "batchGetBuilds w \<lparr>ids = [buildId e]\<rparr> = Inr r"
    and "builds r = Some bs" and "bs \<noteq> []"
    and "build_buildStatus (last bs) = JString s" and "s \<in> set Object_prototype"
    and "startTime (hd bs) = Some t0" and "startTime (last bs) = Some t1"
  shows "\<exists>rep. fst (update rd e w) = Inr rep \<and> status rep = PrototypeMember s"
proof -
  have "s \<noteq> js ''SUCCEEDED''" and "s \<noteq> js ''FAILED''"
    using assms(5) status_names_distinct by auto
  then show ?thesis
    using assms by (simp add: update_passes status_table_other)
qed

text \<open>
  The reply for a record that reports SUCCEEDED and has its end, whatever the renderer:
  the renderer is given the time from the start of the first record to the end of the
  last, in nanoseconds.
\<close>

lemma update_succeeded_any_renderer:
  assumes "batchGetBuilds w \<lparr>ids = [buildId e]\<rparr> = Inr r"
    and "builds r = Some bs" and "bs \<noteq> []"
    and "build_buildStatus (last bs) = JString (js ''SUCCEEDED'')"
    and "startTime (hd bs) = Some t0" and "startTime (last bs) = Some t1"
    and "endTime (last bs) = Some t2"
  shows "fst (update rd e w) =
     Inr \<lparr>status = Status Success,
          entry = e,
          values' =
            \<lparr>buildStatus = js ''SUCCEEDED'',
             statusChangedAt = t2 * 1000000,
             deepLogLink = Option.bind (logs (last bs)) deepLink,
             builtInfo = Some \<lparr>timeRange = rd ((t2 - t0) * 1000000)\<rparr>\<rparr>\<rparr>"
  using assms
  by (simp add: update_passes status_table_SUCCEEDED nullish_def until_def
      toTemporalInstant_def algebra_simps)

lemma update_reads_query_only:
  "batchGetBuilds w' \<lparr>ids = [buildId e]\<rparr> = batchGetBuilds w \<lparr>ids = [buildId e]\<rparr>
   \<Longrightarrow> update rd e w' = update rd e w"
  by (simp add: update_def)

lemma update_keeps_entry: "fst (update rd e w) = Inr rep \<Longrightarrow> entry rep = e"
  by (auto simp: update_def Let_def split: sum.splits option.splits js_value.splits)

section \<open>Facts about encodeURIComponent\<close>

lemma unreserved_not_surrogate:
  "uriUnreserved c \<Longrightarrow> \<not> leading_surrogate c \<and> \<not> trailing_surrogate c"
  unfolding uriUnreserved_def leading_surrogate_def trailing_surrogate_def
  by auto

lemma encodeURIComponent_returns:
  "isWellFormed s \<Longrightarrow> \<exists>t. encodeURIComponent s = Inr t"
proof (induction s rule: encodeURIComponent.induct)
  case 1
  show ?case by simp
next
  case (2 c cs)
  show ?case
  proof (cases "uriUnreserved c")
    case True
    then have "isWellFormed cs"
      using "2.prems" unreserved_not_surrogate [of c] by simp
    then obtain t where "encodeURIComponent cs = Inr t"
      using "2.IH"(1) True by blast
    then show ?thesis
      using True by simp
  next
    case False
    note unres = this
    show ?thesis
    proof (cases "leading_surrogate c")
      case True
      then obtain d ds where cs: "cs = d # ds" and d: "trailing_surrogate d" and ds: "isWellFormed ds"
        using "2.prems" by (cases cs) auto
      obtain t where "encodeURIComponent ds = Inr t"
        using "2.IH"(2) [OF unres True cs d] ds by blast
      then show ?thesis
        using unres True cs d by simp
    next
      case False
      then have nt: "\<not> trailing_surrogate c" and rest: "isWellFormed cs"
        using "2.prems" by simp_all
      obtain t where "encodeURIComponent cs = Inr t"
        using "2.IH"(3) [OF unres False nt] rest by blast
      then show ?thesis
        using unres False nt by simp
    qed
  qed
qed

lemma encodeURIComponent_throws:
  "\<not> isWellFormed s \<Longrightarrow> encodeURIComponent s = Inl URIError"
proof (induction s rule: encodeURIComponent.induct)
  case 1
  then show ?case by simp
next
  case (2 c cs)
  show ?case
  proof (cases "uriUnreserved c")
    case True
    then have "\<not> isWellFormed cs"
      using "2.prems" unreserved_not_surrogate [of c] by simp
    then have "encodeURIComponent cs = Inl URIError"
      using "2.IH"(1) True by blast
    then show ?thesis
      using True by simp
  next
    case False
    note unres = this
    show ?thesis
    proof (cases "leading_surrogate c")
      case True
      note lead = this
      show ?thesis
      proof (cases cs)
        case Nil
        then show ?thesis using unres lead by simp
      next
        case (Cons d ds)
        show ?thesis
        proof (cases "trailing_surrogate d")
          case True
          then have "\<not> isWellFormed ds"
            using "2.prems" lead Cons by simp
          then have "encodeURIComponent ds = Inl URIError"
            using "2.IH"(2) [OF unres lead Cons True] by blast
          then show ?thesis
            using unres lead Cons True by simp
        next
          case False
          then show ?thesis using unres lead Cons by simp
        qed
      qed
    next
      case False
      note nolead = this
      show ?thesis
      proof (cases "trailing_surrogate c")
        case True
        then show ?thesis using unres nolead by simp
      next
        case False
        then have "\<not> isWellFormed cs"
          using "2.prems" nolead by simp
        then have "encodeURIComponent cs = Inl URIError"
          using "2.IH"(3) [OF unres nolead False] by blast
        then show ?thesis
          using unres nolead False by simp
      qed
    qed
  qed
qed

section \<open>Facts about constructComment\<close>

lemma sample_buildId_well_formed: "isWellFormed (js ''operate-env:0001'')"
  by (simp add: js_def leading_surrogate_def trailing_surrogate_def)

lemma constructComment_throws:
  "\<not> isWellFormed (buildId e) \<Longrightarrow>
   constructComment renderTimestamp renderECRImageDigest e vs ctx = Inl URIError"
  by (simp add: constructComment_def encodeURIComponent_throws)

lemma constructComment_optional_absent:
  assumes "encodeURIComponent (buildId e) = Inr encoded"
    and "tfBuildOutput e = None" and "generalBuildOutput e = None"
    and "builtInfo vs = None" and "deepLogLink vs = None"
  shows "constructComment renderTimestamp renderECRImageDigest e vs ctx =
     Inr (CommentBody
       [Some (js ''- '' @ ja_build_status @ js '': '' @ buildStatus vs @ js '' (''
              @ renderTimestamp (statusChangedAt vs) @ js '')''),
        None]
       [CommentHint ja_details
          (CommentBody
             [Some (js ''- '' @ ja_build @ js ''ID: ['' @ buildId e @ js ''](''
                    @ js ''https://ap-northeast-1.console.aws.amazon.com/codesuite/codebuild/projects/''
                    @ OPERATE_ENV_PROJECT_NAME (env ctx) @ js ''/build/'' @ encoded
                    @ js ''/?region=ap-northeast-1'' @ js '')''),
              Some (js ''- '' @ ja_used @ js '' Web '' @ ja_image_digest @ js '': ''
                    @ renderECRImageDigest imageRegion (webImageDigest e) (WEB_REPO_NAME (env ctx))),
              Some (js ''- '' @ ja_used @ js '' API '' @ ja_image_digest @ js '': ''
                    @ renderECRImageDigest imageRegion (apiImageDigest e) (API_REPO_NAME (env ctx))),
              None,
              None]
             [])])"
  using assms by (simp add: constructComment_def Let_def and_then_def js_def)

section \<open>Claims about update\<close>

text \<open>
  C1, as stated: for every job record whose status string is neither SUCCEEDED nor FAILED,
  \<open>update\<close> returns status undone and raises no error. It fails at two records. A
  record in progress that has no start time is refused with a TypeError. A record whose
  status string is \<open>constructor\<close> gets, as its status, the member of that name of
  \<open>Object.prototype\<close>: the status table is an object literal, and the lookup does not
  come back undefined.
\<close>

theorem update_unrecognized_status_counterexample:
  "fst (update renderDuration sample_entry
          (query_settles (Inr \<lparr>builds = Some [sample_build (JString (js ''IN_PROGRESS'')) None None]\<rparr>)))
     = Inl (TypeError (js ''CodeBuild first startTime is not found''))
   \<and> fst (update renderDuration sample_entry
          (query_settles (Inr \<lparr>builds = Some [sample_build (JString (js ''constructor'')) (Some 1000) None]\<rparr>)))
     = Inr \<lparr>status = PrototypeMember (js ''constructor''),
            entry = sample_entry,
            values' = \<lparr>buildStatus = js ''constructor'', statusChangedAt = 1000000000,
                       deepLogLink = Some (js ''https://logs.example/1''), builtInfo = None\<rparr>\<rparr>"
  by (simp add: update_def query_settles_def sample_build_def index_def get_property_def
      Object_prototype_def Let_def nullish_def toTemporalInstant_def js_def)

text \<open>
  C1, amended: when the query settles to a list that is not empty, whose first and last
  records have a start time and whose last record has a status string that is neither
  SUCCEEDED nor FAILED nor the name of a member of \<open>Object.prototype\<close>, then \<open>update\<close>
  replies with status undone and raises no error. (A query for one build settles to one
  record, which is both the first and the last.)
\<close>

theorem update_unrecognized_status_undone:
  assumes "batchGetBuilds w \<lparr>ids = [buildId e]\<rparr> = Inr r"
    and "builds r = Some bs" and "bs \<noteq> []"
    and "build_buildStatus (last bs) = JString s"
    and "s \<noteq> js ''SUCCEEDED''" and "s \<noteq> js ''FAILED''" and "s \<notin> set Object_prototype"
    and "startTime (hd bs) = Some t0" and "startTime (last bs) = Some t1"
  shows "\<exists>rep. fst (update rd e w) = Inr rep \<and> status rep = Status Undone"
  using assms by (simp add: update_passes status_table_other)

theorem update_unrecognized_status_undone_witness:
  "\<exists>rep. fst (update renderDuration sample_entry
             (query_settles (Inr \<lparr>builds = Some [sample_build (JString (js ''IN_PROGRESS'')) (Some 1000) None]\<rparr>)))
           = Inr rep \<and> status rep = Status Undone"
  by (rule update_unrecognized_status_undone
        [where r = "\<lparr>builds = Some [sample_build (JString (js ''IN_PROGRESS'')) (Some 1000) None]\<rparr>"
           and bs = "[sample_build (JString (js ''IN_PROGRESS'')) (Some 1000) None]"
           and s = "js ''IN_PROGRESS''"])
     (simp_all add: query_settles_def sample_build_def Object_prototype_def js_def)

text \<open>
  C2: \<open>update\<close> is idempotent. When a call of \<open>update\<close> has replied, a second call
  on the entry of that reply, in a world where the query for the entry's build settles
  as it did before, replies the same: the same status, the same Values, the same entry.
\<close>

theorem update_idempotent:
  assumes "batchGetBuilds w' \<lparr>ids = [buildId e]\<rparr> = batchGetBuilds w \<lparr>ids = [buildId e]\<rparr>"
    and "fst (update rd e w) = Inr rep"
  shows "fst (update rd (entry rep) w') = Inr rep"
proof -
  have "entry rep = e"
    using assms(2) by (rule update_keeps_entry)
  moreover have "update rd e w' = update rd e w"
    using assms(1) by (rule update_reads_query_only)
  ultimately show ?thesis
    using assms(2) by simp
qed

theorem update_idempotent_witness:
  "\<exists>rep. fst (update renderDuration sample_entry
             (query_settles (Inr \<lparr>builds = Some [sample_build (JString (js ''SUCCEEDED'')) (Some 1000) (Some 61000)]\<rparr>)))
           = Inr rep
     \<and> fst (update renderDuration (entry rep)
             ((query_settles (Inr \<lparr>builds = Some [sample_build (JString (js ''SUCCEEDED'')) (Some 1000) (Some 61000)]\<rparr>))
                \<lparr>startBuild := (\<lambda>input. Inr \<lparr>build = None\<rparr>)\<rparr>))
           = Inr rep"
proof -
  let ?w = "query_settles (Inr \<lparr>builds = Some [sample_build (JString (js ''SUCCEEDED'')) (Some 1000) (Some 61000)]\<rparr>)"
  obtain rep where rep: "fst (update renderDuration sample_entry ?w) = Inr rep"
    by (simp add: update_def query_settles_def sample_build_def index_def Let_def)
  have "fst (update renderDuration (entry rep) (?w\<lparr>startBuild := (\<lambda>input. Inr \<lparr>build = None\<rparr>)\<rparr>)) = Inr rep"
    by (rule update_idempotent [OF _ rep]) (simp add: query_settles_def)
  with rep show ?thesis by blast
qed

text \<open>
  C3: a malformed job record makes \<open>update\<close> fail with one of its own TypeErrors. When
  the query settles to a list that is not empty, and the status of the last record is not
  a string, or the first or the last record has no start time, then \<open>update\<close> returns
  no reply (so no status undone either): it throws one of the TypeErrors it constructs.
\<close>

theorem update_malformed_record:
  assumes "batchGetBuilds w \<lparr>ids = [buildId e]\<rparr> = Inr r"
    and "builds r = Some bs" and "bs \<noteq> []"
    and "(\<forall>s. build_buildStatus (last bs) \<noteq> JString s)
         \<or> startTime (hd bs) = None \<or> startTime (last bs) = None"
  shows "\<exists>m. fst (update rd e w) = Inl (TypeError m) \<and> TypeError m \<in> set update_errors"
  using assms
  by (auto simp: update_def Let_def index_first index_last update_errors_def
      split: js_value.splits option.splits)

theorem update_malformed_record_witness:
  "\<exists>m. fst (update renderDuration sample_entry
           (query_settles (Inr \<lparr>builds = Some [sample_build (JString (js ''IN_PROGRESS'')) None None]\<rparr>)))
         = Inl (TypeError m) \<and> TypeError m \<in> set update_errors"
  by (rule update_malformed_record
        [where r = "\<lparr>builds = Some [sample_build (JString (js ''IN_PROGRESS'')) None None]\<rparr>"
           and bs = "[sample_build (JString (js ''IN_PROGRESS'')) None None]"])
     (simp_all add: query_settles_def sample_build_def)

text \<open>
  C4: a job record that reports SUCCEEDED, with start and end present, gives status
  success and a builtInfo whose time range is the rendered duration of the build: the
  time from the start \<open>t0\<close> of the first record to the end \<open>t2\<close> of the last, which
  is \<open>t2 - t0\<close> milliseconds and reaches the renderer as \<open>(t2 - t0) * 1000000\<close>
  nanoseconds. The string is not empty. The duration is rendered by \<open>renderDuration\<close>
  as modelled above; the sample build, which runs from 1000 to 61000, gives \<open>60s\<close>.
\<close>

theorem update_succeeded:
  assumes "batchGetBuilds w \<lparr>ids = [buildId e]\<rparr> = Inr r"
    and "builds r = Some bs" and "bs \<noteq> []"
    and "build_buildStatus (last bs) = JString (js ''SUCCEEDED'')"
    and "startTime (hd bs) = Some t0" and "startTime (last bs) = Some t1"
    and "endTime (last bs) = Some t2"
  shows "\<exists>rep info. fst (update renderDuration e w) = Inr rep
           \<and> status rep = Status Success
           \<and> builtInfo (values' rep) = Some info
           \<and> timeRange info = renderDuration ((t2 - t0) * 1000000)
           \<and> timeRange info \<noteq> []"
  using update_succeeded_any_renderer [OF assms, of renderDuration]
  by (simp add: renderDuration_nonempty)

theorem update_succeeded_witness:
  "\<exists>rep info. fst (update renderDuration sample_entry
           (query_settles (Inr \<lparr>builds = Some [sample_build (JString (js ''SUCCEEDED'')) (Some 1000) (Some 61000)]\<rparr>)))
         = Inr rep
     \<and> status rep = Status Success
     \<and> builtInfo (values' rep) = Some info
     \<and> timeRange info = js ''60s''
     \<and> timeRange info \<noteq> []"
proof -
  have "renderDuration ((61000 - 1000) * 1000000) = js ''60s''"
    by (simp add: renderDuration_def decimal.simps js_def)
  then show ?thesis
    using update_succeeded
      [where e = sample_entry
         and w = "query_settles (Inr \<lparr>builds = Some [sample_build (JString (js ''SUCCEEDED'')) (Some 1000) (Some 61000)]\<rparr>)"
         and r = "\<lparr>builds = Some [sample_build (JString (js ''SUCCEEDED'')) (Some 1000) (Some 61000)]\<rparr>"
         and bs = "[sample_build (JString (js ''SUCCEEDED'')) (Some 1000) (Some 61000)]"
         and ?t0.0 = 1000 and ?t1.0 = 1000 and ?t2.0 = 61000]
    by (simp add: query_settles_def sample_build_def)
qed

text \<open>
  C5, as stated: for a record in a terminal state, success or failure, \<open>update\<close>
  computes the duration in builtInfo. It fails at a FAILED record: \<open>update\<close> computes
  the built info only when the status is SUCCEEDED, and leaves it null otherwise.
\<close>

theorem update_terminal_counterexample:
  "fst (update renderDuration sample_entry
          (query_settles (Inr \<lparr>builds = Some [sample_build (JString (js ''FAILED'')) (Some 1000) (Some 61000)]\<rparr>)))
   = Inr \<lparr>status = Status Failure,
          entry = sample_entry,
          values' = \<lparr>buildStatus = js ''FAILED'', statusChangedAt = 61000000000,
                     deepLogLink = Some (js ''https://logs.example/1''), builtInfo = None\<rparr>\<rparr>"
  by (simp add: update_def query_settles_def sample_build_def index_def get_property_def
      Let_def nullish_def toTemporalInstant_def js_def)

text \<open>
  C5, amended: when the query settles to a list that is not empty, whose first and last
  records have a start time and whose last record reports SUCCEEDED or FAILED, then
  \<open>update\<close> replies with the terminal status of that name (success for SUCCEEDED,
  failure for FAILED), with the deep link of the record's logs when it has one, and with
  the time of the change (the end of the last record, or else its start). builtInfo holds
  the rendered duration when the record reports SUCCEEDED and is null when it
  reports FAILED.
\<close>

theorem update_terminal:
  assumes "batchGetBuilds w \<lparr>ids = [buildId e]\<rparr> = Inr r"
    and "builds r = Some bs" and "bs \<noteq> []"
    and "build_buildStatus (last bs) = JString s"
    and "s = js ''SUCCEEDED'' \<or> s = js ''FAILED''"
    and "startTime (hd bs) = Some t0" and "startTime (last bs) = Some t1"
  shows "\<exists>rep. fst (update rd e w) = Inr rep
           \<and> status rep = Status (if s = js ''SUCCEEDED'' then Success else Failure)
           \<and> deepLogLink (values' rep) = Option.bind (logs (last bs)) deepLink
           \<and> statusChangedAt (values' rep) = toTemporalInstant (nullish (endTime (last bs)) t1)
           \<and> builtInfo (values' rep) =
               (if s = js ''SUCCEEDED''
                then Some \<lparr>timeRange = rd (until (toTemporalInstant t0)
                                (toTemporalInstant (nullish (endTime (last bs)) t1)))\<rparr>
                else None)"
  using assms status_names_distinct(1)
  by (auto simp: update_passes status_table_SUCCEEDED status_table_FAILED)

theorem update_terminal_witness:
  "\<exists>rep. fst (update renderDuration sample_entry
           (query_settles (Inr \<lparr>builds = Some [sample_build (JString (js ''FAILED'')) (Some 1000) (Some 61000)]\<rparr>)))
         = Inr rep
     \<and> status rep = Status Failure
     \<and> deepLogLink (values' rep) = Some (js ''https://logs.example/1'')
     \<and> statusChangedAt (values' rep) = 61000000000
     \<and> builtInfo (values' rep) = None"
  using update_terminal
        [where rd = renderDuration and e = sample_entry
           and w = "query_settles (Inr \<lparr>builds = Some [sample_build (JString (js ''FAILED'')) (Some 1000) (Some 61000)]\<rparr>)"
           and r = "\<lparr>builds = Some [sample_build (JString (js ''FAILED'')) (Some 1000) (Some 61000)]\<rparr>"
           and bs = "[sample_build (JString (js ''FAILED'')) (Some 1000) (Some 61000)]"
           and s = "js ''FAILED''" and ?t0.0 = 1000 and ?t1.0 = 1000]
        status_names_distinct(1)
  by (simp add: query_settles_def sample_build_def nullish_def toTemporalInstant_def)

text \<open>
  C9: the entry in the reply of \<open>update\<close> is the entry it was given, whatever the
  query settles to: number of the pull request, build id and ARN, and the two image
  digests are as they were.
\<close>

theorem update_entry_unchanged:
  "fst (update rd e w) = Inr rep \<Longrightarrow> entry rep = e"
  by (rule update_keeps_entry)

theorem update_entry_unchanged_witness:
  "\<exists>rep. fst (update renderDuration sample_entry
           (query_settles (Inr \<lparr>builds = Some [sample_build (JString (js ''IN_PROGRESS'')) (Some 1000) None]\<rparr>)))
         = Inr rep \<and> entry rep = sample_entry"
proof -
  obtain rep where rep: "fst (update renderDuration sample_entry
           (query_settles (Inr \<lparr>builds = Some [sample_build (JString (js ''IN_PROGRESS'')) (Some 1000) None]\<rparr>)))
         = Inr rep"
    by (simp add: update_def query_settles_def sample_build_def index_def Let_def)
  from update_entry_unchanged [OF rep] rep show ?thesis by blast
qed

text \<open>
  C10: when the query settles to a list that is there but empty, \<open>update\<close> passes the
  test for a missing list, takes \<open>builds[0]\<close> and \<open>builds[builds.length - 1]\<close>, both
  undefined, and reads \<open>buildStatus\<close> of the latter. It returns no reply, with status
  undone or any other, and the error is none of those that \<open>update\<close> constructs: it is
  the engine's, for a property read from undefined.
\<close>

theorem update_empty_builds:
  assumes "batchGetBuilds w \<lparr>ids = [buildId e]\<rparr> = Inr r" and "builds r = Some []"
  shows "fst (update rd e w) = Inl (CannotReadProperty (js ''buildStatus''))
         \<and> CannotReadProperty (js ''buildStatus'') \<notin> set update_errors"
  using assms by (simp add: update_def index_Nil update_errors_def)

theorem update_empty_builds_witness:
  "fst (update renderDuration sample_entry (query_settles (Inr \<lparr>builds = Some []\<rparr>)))
     = Inl (CannotReadProperty (js ''buildStatus''))
   \<and> CannotReadProperty (js ''buildStatus'') \<notin> set update_errors"
  by (rule update_empty_builds [where r = "\<lparr>builds = Some []\<rparr>"])
     (simp_all add: query_settles_def)
section \<open>Claims about main\<close>

text \<open>
  C6: when the lookup of the API image finds nothing, or it finds the API image and the
  lookup of the WEB image finds nothing, \<open>main\<close> throws the Error that names the
  missing image and returns no reply, and \<open>startBuild\<close> is not among the calls it made.
\<close>

theorem main_image_not_found:
  assumes "getImageDetailByTag w imageRegion (API_REPO_NAME (env ctx)) (namespace ctx) = Inr None
     \<or> (\<exists>detail. getImageDetailByTag w imageRegion (API_REPO_NAME (env ctx)) (namespace ctx)
                    = Inr (Some detail))
       \<and> getImageDetailByTag w imageRegion (WEB_REPO_NAME (env ctx)) (namespace ctx) = Inr None"
  shows "fst (main paramsGetter toCodeBuildEnv dynamicRunScriptCodeBuildEnv ctx generalEntry w)
         = Inl (Error
             (if getImageDetailByTag w imageRegion (API_REPO_NAME (env ctx)) (namespace ctx) = Inr None
              then js ''Image for API not found.'' else js ''Image for WEB not found.''))
       \<and> (\<forall>input. StartBuild input
              \<notin> set (snd (main paramsGetter toCodeBuildEnv dynamicRunScriptCodeBuildEnv ctx generalEntry w)))"
  using assms by (auto simp: main_def)

theorem main_image_not_found_witness:
  "fst (main sample_paramsGetter sample_toCodeBuildEnv sample_toCodeBuildEnv sample_context
          sample_general_entry
          (registry_holds (Some \<lparr>imageDigest = js ''sha256:bb''\<rparr>) None (Inr \<lparr>build = None\<rparr>)))
     = Inl (Error (js ''Image for WEB not found.''))
   \<and> (\<forall>input. StartBuild input
          \<notin> set (snd (main sample_paramsGetter sample_toCodeBuildEnv sample_toCodeBuildEnv
                          sample_context sample_general_entry
                          (registry_holds (Some \<lparr>imageDigest = js ''sha256:bb''\<rparr>) None
                             (Inr \<lparr>build = None\<rparr>)))))
   \<and> fst (main sample_paramsGetter sample_toCodeBuildEnv sample_toCodeBuildEnv sample_context
          sample_general_entry
          (registry_holds None (Some \<lparr>imageDigest = js ''sha256:aa''\<rparr>) (Inr \<lparr>build = None\<rparr>)))
     = Inl (Error (js ''Image for API not found.''))"
  using main_image_not_found
    [where w = "registry_holds (Some \<lparr>imageDigest = js ''sha256:bb''\<rparr>) None (Inr \<lparr>build = None\<rparr>)"
       and ctx = sample_context and paramsGetter = sample_paramsGetter
       and toCodeBuildEnv = sample_toCodeBuildEnv
       and dynamicRunScriptCodeBuildEnv = sample_toCodeBuildEnv
       and generalEntry = sample_general_entry]
    main_image_not_found
    [where w = "registry_holds None (Some \<lparr>imageDigest = js ''sha256:aa''\<rparr>) (Inr \<lparr>build = None\<rparr>)"
       and ctx = sample_context and paramsGetter = sample_paramsGetter
       and toCodeBuildEnv = sample_toCodeBuildEnv
       and dynamicRunScriptCodeBuildEnv = sample_toCodeBuildEnv
       and generalEntry = sample_general_entry]
  by (simp add: registry_holds_def sample_context_def js_def)

text \<open>
  C7: when both lookups find an image and \<open>startBuild\<close> resolves to a response with a
  build whose status, id and ARN are strings and whose start time is there, \<open>main\<close>
  replies with status undone, an entry that holds the number of the pull request, the id
  and ARN of the build and the two digests found, and Values that hold the reported
  status and the start time as an instant.
\<close>

theorem main_starts_build:
  assumes "getImageDetailByTag w imageRegion (API_REPO_NAME (env ctx)) (namespace ctx)
           = Inr (Some apiImageDetail)"
    and "getImageDetailByTag w imageRegion (WEB_REPO_NAME (env ctx)) (namespace ctx)
           = Inr (Some webImageDetail)"
    and "startBuild w (startBuild_input paramsGetter toCodeBuildEnv dynamicRunScriptCodeBuildEnv
                         ctx generalEntry apiImageDetail webImageDetail) = Inr r"
    and "build r = Some b"
    and "build_buildStatus b = JString s" and "build_id b = JString i"
    and "build_arn b = JString a" and "startTime b = Some t"
  shows "fst (main paramsGetter toCodeBuildEnv dynamicRunScriptCodeBuildEnv ctx generalEntry w)
         = Inr \<lparr>status = Status Undone,
                entry = \<lparr>prNumber = issue_number ctx, buildId = i, buildArn = a,
                          webImageDigest = imageDigest webImageDetail,
                          apiImageDigest = imageDigest apiImageDetail,
                          generalBuildOutput = None, tfBuildOutput = None,
                          runTaskBuildOutput = None\<rparr>,
                values' = \<lparr>buildStatus = s, statusChangedAt = toTemporalInstant t,
                            deepLogLink = None, builtInfo = None\<rparr>\<rparr>"
  using assms by (simp add: main_def Let_def)

theorem main_starts_build_witness:
  "fst (main sample_paramsGetter sample_toCodeBuildEnv sample_toCodeBuildEnv sample_context
          sample_general_entry
          (registry_holds (Some \<lparr>imageDigest = js ''sha256:bb''\<rparr>) (Some \<lparr>imageDigest = js ''sha256:aa''\<rparr>)
             (Inr \<lparr>build = Some (sample_build (JString (js ''IN_PROGRESS'')) (Some 1000) None)\<rparr>)))
     = Inr \<lparr>status = Status Undone,
            entry = sample_entry,
            values' = sample_values\<rparr>"
  using main_starts_build
    [where w = "registry_holds (Some \<lparr>imageDigest = js ''sha256:bb''\<rparr>) (Some \<lparr>imageDigest = js ''sha256:aa''\<rparr>)
             (Inr \<lparr>build = Some (sample_build (JString (js ''IN_PROGRESS'')) (Some 1000) None)\<rparr>)"
       and ctx = sample_context and paramsGetter = sample_paramsGetter
       and toCodeBuildEnv = sample_toCodeBuildEnv
       and dynamicRunScriptCodeBuildEnv = sample_toCodeBuildEnv
       and generalEntry = sample_general_entry
       and apiImageDetail = "\<lparr>imageDigest = js ''sha256:bb''\<rparr>"
       and webImageDetail = "\<lparr>imageDigest = js ''sha256:aa''\<rparr>"
       and r = "\<lparr>build = Some (sample_build (JString (js ''IN_PROGRESS'')) (Some 1000) None)\<rparr>"
       and b = "sample_build (JString (js ''IN_PROGRESS'')) (Some 1000) None"
       and s = "js ''IN_PROGRESS''" and i = "js ''operate-env:0001''"
       and a = "js ''arn:aws:codebuild:0001''" and t = 1000]
  by (simp add: registry_holds_def sample_context_def sample_build_def sample_entry_def
      sample_values_def toTemporalInstant_def js_def)

section \<open>Claims about constructComment\<close>

text \<open>
  C8, as stated: \<open>constructComment\<close> never throws, whatever valid entry and Values it
  is given. It fails at an entry whose build id holds a surrogate without its partner:
  the build id goes through \<open>encodeURIComponent\<close>, which throws a URIError there.
\<close>

theorem constructComment_lone_surrogate_counterexample:
  "constructComment sample_renderTimestamp sample_renderECRImageDigest
     (sample_entry\<lparr>buildId := [0xD800]\<rparr>) sample_values sample_context
   = Inl URIError"
  by (simp add: constructComment_def uriUnreserved_def leading_surrogate_def)

text \<open>
  C8, amended: for every entry whose build id is a well-formed string, and all Values and
  contexts, with each optional field there or not, \<open>constructComment\<close> throws nothing
  and returns a comment: a list of lines that is not empty, and one hint, titled with the
  word for details, whose body is a list of lines that is not empty. (The two rendering
  helpers are taken to return a string for every argument.)
\<close>

theorem constructComment_returns:
  assumes "isWellFormed (buildId e)"
  shows "\<exists>lines details.
           constructComment renderTimestamp renderECRImageDigest e vs ctx
             = Inr (CommentBody lines [CommentHint ja_details (CommentBody details [])])
           \<and> lines \<noteq> [] \<and> details \<noteq> []"
proof -
  obtain encoded where "encodeURIComponent (buildId e) = Inr encoded"
    using encodeURIComponent_returns [OF assms] by blast
  then show ?thesis
    by (simp add: constructComment_def Let_def)
qed

theorem constructComment_returns_witness:
  "\<exists>lines details.
     constructComment sample_renderTimestamp sample_renderECRImageDigest
       sample_entry sample_values sample_context
       = Inr (CommentBody lines [CommentHint ja_details (CommentBody details [])])
     \<and> lines \<noteq> [] \<and> details \<noteq> []"
  by (rule constructComment_returns) (simp add: sample_entry_def sample_buildId_well_formed)

end
